theory Spec2Isabelle
  imports Complex_Main "HOL-Library.AList"
begin

section \<open>JSON values and JavaScript's view of them\<close>

text \<open>
  \<^verbatim>\<open>inputData.json\<close>, the payload sent to Pipedrive and the objects nested in both are JSON
  values. An object is an association list in insertion order, its keys distinct, as
  \<^verbatim>\<open>JSON.parse\<close> and property assignment build it. A number is a rational: the program
  only copies numbers and tests them for zero.
\<close>

datatype json =
    JNull
  | JBool bool
  | JNum rat
  | JStr string
  | JArr "json list"
  | JObj "(string \<times> json) list"

text \<open>
  What an expression can evaluate to is a \<open>json option\<close>: \<open>None\<close> is JavaScript's
  \<^verbatim>\<open>undefined\<close>. \<open>truthy\<close> is ToBoolean (what \<^verbatim>\<open>!x\<close> negates), \<open>typeof\<close> the operator
  of that name.
\<close>

fun truthy :: "json option \<Rightarrow> bool" where
  "truthy None = False"
| "truthy (Some JNull) = False"
| "truthy (Some (JBool b)) = b"
| "truthy (Some (JNum n)) = (n \<noteq> 0)"
| "truthy (Some (JStr s)) = (s \<noteq> [])"
| "truthy (Some (JArr xs)) = True"
| "truthy (Some (JObj kvs)) = True"

fun typeof :: "json option \<Rightarrow> string" where
  "typeof None = ''undefined''"
| "typeof (Some JNull) = ''object''"
| "typeof (Some (JBool b)) = ''boolean''"
| "typeof (Some (JNum n)) = ''number''"
| "typeof (Some (JStr s)) = ''string''"
| "typeof (Some (JArr xs)) = ''object''"
| "typeof (Some (JObj kvs)) = ''object''"

text \<open>
  After \<^verbatim>\<open>typeof nameValue !== "string"\<close> has been ruled out, TypeScript reads the value as
  a string; \<open>asString\<close> is that narrowing.
\<close>

fun asString :: "json option \<Rightarrow> string" where
  "asString (Some (JStr s)) = s"
| "asString v = []"

text \<open>Truthiness of a \<^verbatim>\<open>string | undefined\<close> and of a \<^verbatim>\<open>number | undefined\<close>.\<close>

fun truthy_string :: "string option \<Rightarrow> bool" where
  "truthy_string None = False"
| "truthy_string (Some s) = (s \<noteq> [])"

fun truthy_number :: "int option \<Rightarrow> bool" where
  "truthy_number None = False"
| "truthy_number (Some n) = (n \<noteq> 0)"

text \<open>
  A template literal renders a whole number in decimal, with a minus sign below zero
  (identifiers stay far below the \<^verbatim>\<open>1e21\<close> where JavaScript changes to exponents).
\<close>

fun digits :: "nat \<Rightarrow> string" where
  "digits n =
     (if n < 10 then [''0123456789'' ! n]
      else digits (n div 10) @ [''0123456789'' ! (n mod 10)])"

declare digits.simps [simp del]

definition numberToString :: "int \<Rightarrow> string" where
  "numberToString i = (if i < 0 then ''-'' @ digits (nat (- i)) else digits (nat i))"

section \<open>The interfaces of \<^verbatim>\<open>index.ts\<close>\<close>

record Mapping =
  pipedriveKey :: string
  inputKey :: string

text \<open>
  Modelled from the spec: the type \<^verbatim>\<open>PipedrivePerson\<close> is declared in
  \<^verbatim>\<open>types/pipedrive\<close>, which is not among the sources. The spec's RemoteRecord holds
  "at minimum an identifier and the synced fields"; \<^verbatim>\<open>createOrUpdatePerson\<close> takes the
  identifier as a \<^verbatim>\<open>number\<close>. The field \<^verbatim>\<open>id\<close> is \<open>ident\<close> here.
\<close>

record PipedrivePerson =
  ident :: int
  props :: "(string \<times> json) list"

type_synonym payload = "(string \<times> json) list"

text \<open>
  What a \<^verbatim>\<open>catch\<close> clause can receive: an \<^verbatim>\<open>AxiosError\<close>, with
  \<^verbatim>\<open>error.response?.data?.error\<close> (\<open>None\<close> when any link of that chain is missing) and
  its own message, or a plain \<^verbatim>\<open>Error\<close> with its message.
\<close>

datatype js_error =
    AxiosError "string option" string
  | Error string

definition formatError :: "string \<Rightarrow> js_error \<Rightarrow> string" where
  "formatError context error =
     (case error of
        AxiosError response_error message \<Rightarrow>
          context @ '': '' @
            (if truthy_string response_error then (case response_error of Some s \<Rightarrow> s | None \<Rightarrow> [])
             else if message \<noteq> [] then message
             else ''Unknown API error'')
      | Error message \<Rightarrow>
          context @ '': '' @ (if message \<noteq> [] then message else ''Unknown error''))"

section \<open>The environment and the HTTP client\<close>

record env =
  API_KEY :: "string option"
  COMPANY_DOMAIN :: "string option"
  env_BASE_URL :: "string option"

definition BASE_URL :: "env \<Rightarrow> string" where
  "BASE_URL e =
     (case env_BASE_URL e of
        Some s \<Rightarrow> if s \<noteq> [] then s
                  else ''https://'' @ (case COMPANY_DOMAIN e of Some d \<Rightarrow> d | None \<Rightarrow> ''undefined'')
                         @ ''.pipedrive.com/v1''
      | None \<Rightarrow> ''https://'' @ (case COMPANY_DOMAIN e of Some d \<Rightarrow> d | None \<Rightarrow> ''undefined'')
                  @ ''.pipedrive.com/v1'')"

text \<open>
  One call of axios: the method, the URL, the query parameters (a parameter can be
  \<^verbatim>\<open>undefined\<close>) and the body, if any.
\<close>

record request =
  http_method :: string
  url :: string
  params :: "(string \<times> json option) list"
  data :: "payload option"

text \<open>
  The body of a search response is \<^verbatim>\<open>{ data: { items: { item: PipedrivePerson }[] } }\<close>.
  The code reads it as \<^verbatim>\<open>data.data?.items[0]?.item ?? null\<close>, so \<^verbatim>\<open>data.data\<close> may be
  missing: the response is \<open>None\<close> then, and the list of items otherwise.
\<close>

record search_item =
  item :: PipedrivePerson

type_synonym search_response = "search_item list option"

text \<open>
  The remote system is whatever axios answers to a request: it resolves (\<open>Inr\<close>) or
  rejects (\<open>Inl\<close>). \<open>axios_get\<close> is \<^verbatim>\<open>axios.get\<close>, \<open>axios_request\<close> the call
  \<^verbatim>\<open>axios({method, url, params, data})\<close>, whose body \<^verbatim>\<open>{ data: PipedrivePerson }\<close> is the
  person.
\<close>

record remote =
  axios_get :: "request \<Rightarrow> js_error + search_response"
  axios_request :: "request \<Rightarrow> js_error + PipedrivePerson"

text \<open>
  The effects of a run, in order: each invocation of the two remote functions with its
  arguments, and each HTTP request handed to axios.
\<close>

datatype event =
    Call_findPersonByName string
  | Call_createOrUpdatePerson payload "int option"
  | Http request

section \<open>Remote lookup and upsert\<close>

definition search_request :: "env \<Rightarrow> string \<Rightarrow> request" where
  "search_request e name =
     \<lparr> http_method = ''get'',
       url = BASE_URL e @ ''/persons/search'',
       params = [(''term'', Some (JStr name)), (''fields'', Some (JStr ''name'')),
                 (''exact_match'', Some (JBool True)),
                 (''api_token'', map_option JStr (API_KEY e))],
       data = None \<rparr>"

definition findPersonByName ::
  "env \<Rightarrow> remote \<Rightarrow> string \<Rightarrow> (js_error + PipedrivePerson option) \<times> event list" where
  "findPersonByName e r name =
     (if \<not> truthy_string (API_KEY e) \<or> \<not> truthy_string (COMPANY_DOMAIN e)
      then (Inl (Error ''Missing PIPEDRIVE_API_KEY or PIPEDRIVE_COMPANY_DOMAIN in .env file''),
            [Call_findPersonByName name])
      else
        (case axios_get r (search_request e name) of
           Inl error \<Rightarrow>
             (Inl (Error (formatError ''Failed to search for person'' error)),
              [Call_findPersonByName name, Http (search_request e name)])
         | Inr response \<Rightarrow>
             (Inr (case response of
                     None \<Rightarrow> None
                   | Some items \<Rightarrow> (case items of [] \<Rightarrow> None | first # rest \<Rightarrow> Some (item first))),
              [Call_findPersonByName name, Http (search_request e name)])))"

definition upsert_request :: "env \<Rightarrow> payload \<Rightarrow> int option \<Rightarrow> request" where
  "upsert_request e personData personId =
     \<lparr> http_method = (if truthy_number personId then ''put'' else ''post''),
       url = (if truthy_number personId
              then BASE_URL e @ ''/persons/'' @
                     (case personId of Some n \<Rightarrow> numberToString n | None \<Rightarrow> ''undefined'')
              else BASE_URL e @ ''/persons''),
       params = [(''api_token'', map_option JStr (API_KEY e))],
       data = Some personData \<rparr>"

definition createOrUpdatePerson ::
  "env \<Rightarrow> remote \<Rightarrow> payload \<Rightarrow> int option \<Rightarrow> (js_error + PipedrivePerson) \<times> event list" where
  "createOrUpdatePerson e r personData personId =
     (case axios_request r (upsert_request e personData personId) of
        Inr person \<Rightarrow>
          (Inr person,
           [Call_createOrUpdatePerson personData personId,
            Http (upsert_request e personData personId)])
      | Inl error \<Rightarrow>
          (Inl (Error (formatError
                  (''Failed to '' @ (if truthy_number personId then ''update'' else ''create'')
                     @ '' person'') error)),
           [Call_createOrUpdatePerson personData personId,
            Http (upsert_request e personData personId)]))"

section \<open>The payload\<close>

text \<open>
  \<^verbatim>\<open>acc[pipedriveKey] = ...\<close> on the object literal \<^verbatim>\<open>{}\<close>: the property is created, or
  overwritten where it stands. The one key for which JavaScript does neither is
  \<^verbatim>\<open>__proto__\<close>: the assignment runs the prototype setter and the object gets no own
  property, so nothing of it reaches the JSON body.
\<close>

definition assign :: "payload \<Rightarrow> string \<Rightarrow> json \<Rightarrow> payload" where
  "assign acc k v = (if k = ''__proto__'' then acc else AList.update k v acc)"

text \<open>
  The callback of \<^verbatim>\<open>mappings.reduce\<close>. \<open>get\<close> is lodash's \<^verbatim>\<open>get\<close>, a function of the
  input and a path that returns the value found or \<^verbatim>\<open>undefined\<close>; lodash is no part of
  the repository, so the program is modelled over any such function.
\<close>

definition personData_step ::
  "(json \<Rightarrow> string \<Rightarrow> json option) \<Rightarrow> json \<Rightarrow> payload \<Rightarrow> Mapping \<Rightarrow> payload" where
  "personData_step get inputData acc m =
     (case get inputData (inputKey m) of
        None \<Rightarrow> acc
      | Some v \<Rightarrow>
          if v \<noteq> JNull
          then assign acc (pipedriveKey m)
                 (if pipedriveKey m = ''email'' \<or> pipedriveKey m = ''phone''
                  then JArr [JObj [(''value'', v), (''primary'', JBool True),
                                   (''label'', JStr (if pipedriveKey m = ''email'' then ''work''
                                                     else ''home''))]]
                  else v)
          else acc)"

definition personData ::
  "(json \<Rightarrow> string \<Rightarrow> json option) \<Rightarrow> Mapping list \<Rightarrow> json \<Rightarrow> payload" where
  "personData get mappings inputData = foldl (personData_step get inputData) [] mappings"

section \<open>The orchestrator\<close>

text \<open>The body of the \<^verbatim>\<open>try\<close> block of \<^verbatim>\<open>syncPdPerson\<close>.\<close>

definition syncPdPerson_try ::
  "(json \<Rightarrow> string \<Rightarrow> json option) \<Rightarrow> env \<Rightarrow> remote \<Rightarrow> Mapping list \<Rightarrow> json
     \<Rightarrow> (js_error + PipedrivePerson) \<times> event list" where
  "syncPdPerson_try get e r mappings inputData =
     (case List.find (\<lambda>m. pipedriveKey m = ''name'') mappings of
        None \<Rightarrow> (Inl (Error ''No mapping found for 'name' in mappings.json''), [])
      | Some nameMapping \<Rightarrow>
          (let nameValue = get inputData (inputKey nameMapping) in
           if \<not> truthy nameValue \<or> typeof nameValue \<noteq> ''string''
           then (Inl (Error (''Invalid or missing value for inputKey '' @ [CHR 0x27]
                               @ inputKey nameMapping @ [CHR 0x27] @ '' in inputData.json'')), [])
           else
             (case findPersonByName e r (asString nameValue) of
                (Inl error, t1) \<Rightarrow> (Inl error, t1)
              | (Inr existingPerson, t1) \<Rightarrow>
                  (case createOrUpdatePerson e r (personData get mappings inputData)
                          (map_option ident existingPerson) of
                     (result, t2) \<Rightarrow> (result, t1 @ t2)))))"

text \<open>The \<^verbatim>\<open>catch\<close> clause: whatever the block threw is thrown again, formatted.\<close>

definition syncPdPerson ::
  "(json \<Rightarrow> string \<Rightarrow> json option) \<Rightarrow> env \<Rightarrow> remote \<Rightarrow> Mapping list \<Rightarrow> json
     \<Rightarrow> (js_error + PipedrivePerson) \<times> event list" where
  "syncPdPerson get e r mappings inputData =
     (case syncPdPerson_try get e r mappings inputData of
        (Inl error, t) \<Rightarrow> (Inl (Error (formatError ''Error in syncPdPerson'' error)), t)
      | (Inr person, t) \<Rightarrow> (Inr person, t))"

section \<open>Concrete collaborators\<close>

text \<open>
  An instance of \<open>get\<close> for the paths the mapping tables of this program use: a key of
  the object itself, or keys separated by dots that lead through nested objects, as
  lodash resolves them. A \<^verbatim>\<open>null\<close> or a missing key on the way gives \<^verbatim>\<open>undefined\<close>.
  Brackets, and keys into arrays and strings, are left out.
\<close>

fun splitPath :: "string \<Rightarrow> string \<Rightarrow> string list" where
  "splitPath key [] = [key]"
| "splitPath key (c # cs) =
     (if c = CHR ''.'' then key # splitPath [] cs else splitPath (key @ [c]) cs)"

fun baseGet :: "json \<Rightarrow> string list \<Rightarrow> json option" where
  "baseGet v [] = Some v"
| "baseGet (JObj kvs) (k # ks) =
     (case map_of kvs k of None \<Rightarrow> None | Some v \<Rightarrow> baseGet v ks)"
| "baseGet v (k # ks) = None"

definition get_dotted :: "json \<Rightarrow> string \<Rightarrow> json option" where
  "get_dotted object path =
     (case object of
        JObj kvs \<Rightarrow>
          (case map_of kvs path of
             Some v \<Rightarrow> Some v
           | None \<Rightarrow> baseGet object (splitPath [] path))
      | other \<Rightarrow> None)"

text \<open>
  The scenario of the spec: the mapping table, the input record, an environment with
  credentials, and a remote system that answers every search with \<open>found\<close> and every
  create or update with \<open>answer\<close>.
\<close>

definition scenario_mappings :: "Mapping list" where
  "scenario_mappings =
     [\<lparr> pipedriveKey = ''name'', inputKey = ''fullName'' \<rparr>,
      \<lparr> pipedriveKey = ''email'', inputKey = ''contact.email'' \<rparr>]"

definition scenario_input :: json where
  "scenario_input =
     JObj [(''fullName'', JStr ''Jane Doe''),
           (''contact'', JObj [(''email'', JStr ''jane@x.com'')])]"

definition scenario_env :: env where
  "scenario_env =
     \<lparr> API_KEY = Some ''key'', COMPANY_DOMAIN = Some ''acme'', env_BASE_URL = None \<rparr>"

definition scenario_remote ::
  "js_error + search_response \<Rightarrow> js_error + PipedrivePerson \<Rightarrow> remote" where
  "scenario_remote found answer =
     \<lparr> axios_get = (\<lambda>req. found), axios_request = (\<lambda>req. answer) \<rparr>"

definition jane :: "int \<Rightarrow> PipedrivePerson" where
  "jane n = \<lparr> ident = n, props = [(''name'', JStr ''Jane Doe'')] \<rparr>"

section \<open>Properties of the payload\<close>

lemma map_of_assign:
  "map_of (assign acc k v) k' =
     (if k = ''__proto__'' then map_of acc k' else if k' = k then Some v else map_of acc k')"
  by (simp add: assign_def update_conv')

lemma personData_step_absent:
  "get inputData (inputKey m) = None \<or> get inputData (inputKey m) = Some JNull
     \<Longrightarrow> personData_step get inputData acc m = acc"
  by (auto simp: personData_step_def)

lemma personData_step_other:
  "pipedriveKey m \<noteq> k
     \<Longrightarrow> map_of (personData_step get inputData acc m) k = map_of acc k"
  by (auto simp: personData_step_def map_of_assign split: option.split)

lemma personData_step_same:
  "map_of (personData_step get inputData acc m) (pipedriveKey m) =
     (case get inputData (inputKey m) of
        None \<Rightarrow> map_of acc (pipedriveKey m)
      | Some v \<Rightarrow>
          if v = JNull \<or> pipedriveKey m = ''__proto__'' then map_of acc (pipedriveKey m)
          else Some (if pipedriveKey m = ''email'' \<or> pipedriveKey m = ''phone''
                     then JArr [JObj [(''value'', v), (''primary'', JBool True),
                             (''label'', JStr (if pipedriveKey m = ''email'' then ''work'' else ''home''))]]
                     else v))"
  by (simp add: personData_step_def map_of_assign split: option.split)

lemma foldl_step_skipped:
  "(\<And>m. m \<in> set ms \<Longrightarrow> pipedriveKey m = k \<Longrightarrow>
       get inputData (inputKey m) = None \<or> get inputData (inputKey m) = Some JNull)
   \<Longrightarrow> map_of (foldl (personData_step get inputData) acc ms) k = map_of acc k"
proof (induction ms arbitrary: acc)
  case Nil
  then show ?case by simp
next
  case (Cons m ms)
  have step: "map_of (personData_step get inputData acc m) k = map_of acc k"
  proof (cases "pipedriveKey m = k")
    case True
    then have "get inputData (inputKey m) = None \<or> get inputData (inputKey m) = Some JNull"
      using Cons.prems by simp
    then show ?thesis by (simp add: personData_step_absent)
  next
    case False
    then show ?thesis by (rule personData_step_other)
  qed
  have "map_of (foldl (personData_step get inputData) (personData_step get inputData acc m) ms) k
          = map_of (personData_step get inputData acc m) k"
    using Cons.prems by (intro Cons.IH) simp_all
  with step show ?case by simp
qed

lemma personData_split:
  "personData get (pre @ m # post) inputData =
     foldl (personData_step get inputData)
       (personData_step get inputData (personData get pre inputData) m) post"
  by (simp add: personData_def)

lemma personData_last_present:
  assumes "\<And>m'. m' \<in> set post \<Longrightarrow> pipedriveKey m' = pipedriveKey m \<Longrightarrow>
             get inputData (inputKey m') = None \<or> get inputData (inputKey m') = Some JNull"
  shows "map_of (personData get (pre @ m # post) inputData) (pipedriveKey m) =
           map_of (personData_step get inputData (personData get pre inputData) m) (pipedriveKey m)"
  unfolding personData_split using assms by (rule foldl_step_skipped)

lemma step_never_null:
  "(\<And>k. map_of acc k \<noteq> Some JNull)
     \<Longrightarrow> map_of (personData_step get inputData acc m) k \<noteq> Some JNull"
  by (cases "pipedriveKey m = k")
     (auto simp: personData_step_def map_of_assign split: option.split)

lemma foldl_step_never_null:
  "(\<And>k. map_of acc k \<noteq> Some JNull)
     \<Longrightarrow> map_of (foldl (personData_step get inputData) acc ms) k \<noteq> Some JNull"
proof (induction ms arbitrary: acc k)
  case Nil
  then show ?case by simp
next
  case (Cons m ms)
  have "\<And>k. map_of (personData_step get inputData acc m) k \<noteq> Some JNull"
    using Cons.prems by (rule step_never_null)
  then show ?case by (simp add: Cons.IH)
qed



text \<open>
  Claim C3. Let \<open>m\<close> be a mapping entry whose source path resolves to a value \<open>v\<close> that
  is neither \<^verbatim>\<open>undefined\<close> nor \<^verbatim>\<open>null\<close>, and let no later entry for the same target
  field resolve to a value. If the target field of \<open>m\<close> is \<^verbatim>\<open>email\<close>, the payload maps
  \<^verbatim>\<open>email\<close> to the one-element collection \<^verbatim>\<open>[{ value: v, primary: true, label: "work" }]\<close>;
  if it is \<^verbatim>\<open>phone\<close>, the payload maps \<^verbatim>\<open>phone\<close> to the same collection with the label
  \<^verbatim>\<open>home\<close>. This holds for every resolver, every input, every source path and whatever
  other entries the table has.
\<close>

theorem email_phone_shaping:
  assumes "get inputData (inputKey m) = Some v" and "v \<noteq> JNull"
    and "\<forall>m' \<in> set post. pipedriveKey m' = pipedriveKey m \<longrightarrow>
           get inputData (inputKey m') = None \<or> get inputData (inputKey m') = Some JNull"
  shows "(pipedriveKey m = ''email'' \<longrightarrow>
            map_of (personData get (pre @ m # post) inputData) ''email'' =
              Some (JArr [JObj [(''value'', v), (''primary'', JBool True),
                                (''label'', JStr ''work'')]]))
       \<and> (pipedriveKey m = ''phone'' \<longrightarrow>
            map_of (personData get (pre @ m # post) inputData) ''phone'' =
              Some (JArr [JObj [(''value'', v), (''primary'', JBool True),
                                (''label'', JStr ''home'')]]))"
proof -
  have last: "map_of (personData get (pre @ m # post) inputData) (pipedriveKey m) =
        map_of (personData_step get inputData (personData get pre inputData) m) (pipedriveKey m)"
    using assms(3) by (intro personData_last_present) blast
  show ?thesis
  proof (intro conjI impI)
    assume k: "pipedriveKey m = ''email''"
    show "map_of (personData get (pre @ m # post) inputData) ''email'' =
              Some (JArr [JObj [(''value'', v), (''primary'', JBool True),
                                (''label'', JStr ''work'')]])"
      using last assms(1,2)
        personData_step_same [of get inputData "personData get pre inputData" m]
      by (simp add: k)
  next
    assume k: "pipedriveKey m = ''phone''"
    show "map_of (personData get (pre @ m # post) inputData) ''phone'' =
              Some (JArr [JObj [(''value'', v), (''primary'', JBool True),
                                (''label'', JStr ''home'')]])"
      using last assms(1,2)
        personData_step_same [of get inputData "personData get pre inputData" m]
      by (simp add: k)
  qed
qed

text \<open>
  The scenario of the spec for \<^verbatim>\<open>email\<close>, and a table with two \<^verbatim>\<open>phone\<close> entries of which
  the later one resolves to nothing.
\<close>

theorem email_phone_shaping_witness:
  "get_dotted scenario_input ''contact.email'' = Some (JStr ''jane@x.com'')
   \<and> map_of (personData get_dotted scenario_mappings scenario_input) ''email'' =
         Some (JArr [JObj [(''value'', JStr ''jane@x.com''), (''primary'', JBool True),
                           (''label'', JStr ''work'')]])
   \<and> get_dotted (JObj [(''mobile'', JNum 5551234)]) ''mobile'' = Some (JNum 5551234)
   \<and> map_of (personData get_dotted
                ([] @ \<lparr> pipedriveKey = ''phone'', inputKey = ''mobile'' \<rparr>
                   # [\<lparr> pipedriveKey = ''phone'', inputKey = ''landline'' \<rparr>])
                (JObj [(''mobile'', JNum 5551234)])) ''phone'' =
         Some (JArr [JObj [(''value'', JNum 5551234), (''primary'', JBool True),
                           (''label'', JStr ''home'')]])"
proof -
  have e1: "get_dotted scenario_input
              (inputKey \<lparr> pipedriveKey = ''email'', inputKey = ''contact.email'' \<rparr>)
            = Some (JStr ''jane@x.com'')"
    by (simp add: get_dotted_def scenario_input_def)
  have e2: "JStr ''jane@x.com'' \<noteq> JNull" by simp
  have e3: "\<forall>m' \<in> set []. pipedriveKey m' =
              pipedriveKey \<lparr> pipedriveKey = ''email'', inputKey = ''contact.email'' \<rparr> \<longrightarrow>
              get_dotted scenario_input (inputKey m') = None \<or>
              get_dotted scenario_input (inputKey m') = Some JNull"
    by simp
  have p1: "get_dotted (JObj [(''mobile'', JNum 5551234)])
              (inputKey \<lparr> pipedriveKey = ''phone'', inputKey = ''mobile'' \<rparr>)
            = Some (JNum 5551234)"
    by (simp add: get_dotted_def)
  have p2: "JNum 5551234 \<noteq> JNull" by simp
  have p3: "\<forall>m' \<in> set [\<lparr> pipedriveKey = ''phone'', inputKey = ''landline'' \<rparr>].
              pipedriveKey m' = pipedriveKey \<lparr> pipedriveKey = ''phone'', inputKey = ''mobile'' \<rparr> \<longrightarrow>
              get_dotted (JObj [(''mobile'', JNum 5551234)]) (inputKey m') = None \<or>
              get_dotted (JObj [(''mobile'', JNum 5551234)]) (inputKey m') = Some JNull"
    by (simp add: get_dotted_def)
  show ?thesis
    using email_phone_shaping [of get_dotted scenario_input
        "\<lparr> pipedriveKey = ''email'', inputKey = ''contact.email'' \<rparr>" "JStr ''jane@x.com''" "[]"
        "[\<lparr> pipedriveKey = ''name'', inputKey = ''fullName'' \<rparr>]"]
      email_phone_shaping [of get_dotted "JObj [(''mobile'', JNum 5551234)]"
        "\<lparr> pipedriveKey = ''phone'', inputKey = ''mobile'' \<rparr>" "JNum 5551234"
        "[\<lparr> pipedriveKey = ''phone'', inputKey = ''landline'' \<rparr>]" "[]"]
      e1 e2 e3 p1 p2 p3
    by (simp add: scenario_mappings_def)
qed

text \<open>
  Claim C4. A mapping entry whose source path resolves to \<^verbatim>\<open>undefined\<close> or \<^verbatim>\<open>null\<close> leaves
  the payload as it was; a target field all of whose entries resolve to \<^verbatim>\<open>undefined\<close> or
  \<^verbatim>\<open>null\<close> is no key of the payload; and no key of the payload holds \<^verbatim>\<open>null\<close>.
\<close>

theorem absent_values_omitted:
  "(get inputData (inputKey m) = None \<or> get inputData (inputKey m) = Some JNull
      \<longrightarrow> personData_step get inputData acc m = acc)
   \<and> ((\<forall>m' \<in> set mappings. pipedriveKey m' = k \<longrightarrow>
          get inputData (inputKey m') = None \<or> get inputData (inputKey m') = Some JNull)
      \<longrightarrow> map_of (personData get mappings inputData) k = None)
   \<and> map_of (personData get mappings inputData) k \<noteq> Some JNull"
proof (intro conjI impI)
  assume "get inputData (inputKey m) = None \<or> get inputData (inputKey m) = Some JNull"
  then show "personData_step get inputData acc m = acc"
    by (rule personData_step_absent)
next
  assume "\<forall>m' \<in> set mappings. pipedriveKey m' = k \<longrightarrow>
            get inputData (inputKey m') = None \<or> get inputData (inputKey m') = Some JNull"
  then have "map_of (foldl (personData_step get inputData) [] mappings) k = map_of [] k"
    by (intro foldl_step_skipped) blast
  then show "map_of (personData get mappings inputData) k = None"
    by (simp add: personData_def)
next
  show "map_of (personData get mappings inputData) k \<noteq> Some JNull"
    unfolding personData_def by (rule foldl_step_never_null) simp
qed

text \<open>
  An input whose \<^verbatim>\<open>company\<close> is \<^verbatim>\<open>null\<close> and which has no \<^verbatim>\<open>contact\<close> at all.
\<close>

theorem absent_values_omitted_witness:
  "get_dotted (JObj [(''fullName'', JStr ''Jane Doe''), (''company'', JNull)]) ''company'' = Some JNull
   \<and> get_dotted (JObj [(''fullName'', JStr ''Jane Doe''), (''company'', JNull)]) ''contact.phone'' = None
   \<and> personData_step get_dotted (JObj [(''fullName'', JStr ''Jane Doe''), (''company'', JNull)])
        [(''name'', JStr ''Jane Doe'')] \<lparr> pipedriveKey = ''org_name'', inputKey = ''company'' \<rparr>
        = [(''name'', JStr ''Jane Doe'')]
   \<and> map_of (personData get_dotted
         [\<lparr> pipedriveKey = ''name'', inputKey = ''fullName'' \<rparr>,
          \<lparr> pipedriveKey = ''org_name'', inputKey = ''company'' \<rparr>,
          \<lparr> pipedriveKey = ''phone'', inputKey = ''contact.phone'' \<rparr>]
         (JObj [(''fullName'', JStr ''Jane Doe''), (''company'', JNull)])) ''phone'' = None
   \<and> map_of (personData get_dotted
         [\<lparr> pipedriveKey = ''name'', inputKey = ''fullName'' \<rparr>,
          \<lparr> pipedriveKey = ''org_name'', inputKey = ''company'' \<rparr>,
          \<lparr> pipedriveKey = ''phone'', inputKey = ''contact.phone'' \<rparr>]
         (JObj [(''fullName'', JStr ''Jane Doe''), (''company'', JNull)])) ''phone'' \<noteq> Some JNull"
proof -
  let ?input = "JObj [(''fullName'', JStr ''Jane Doe''), (''company'', JNull)]"
  let ?ms = "[\<lparr> pipedriveKey = ''name'', inputKey = ''fullName'' \<rparr>,
          \<lparr> pipedriveKey = ''org_name'', inputKey = ''company'' \<rparr>,
          \<lparr> pipedriveKey = ''phone'', inputKey = ''contact.phone'' \<rparr>]"
  have g1: "get_dotted ?input ''company'' = Some JNull"
    and g2: "get_dotted ?input ''contact.phone'' = None"
    by (simp_all add: get_dotted_def)
  have h1: "get_dotted ?input (inputKey \<lparr> pipedriveKey = ''org_name'', inputKey = ''company'' \<rparr>) = None
          \<or> get_dotted ?input (inputKey \<lparr> pipedriveKey = ''org_name'', inputKey = ''company'' \<rparr>) = Some JNull"
    using g1 by simp
  have h2: "\<forall>m' \<in> set ?ms. pipedriveKey m' = ''phone'' \<longrightarrow>
          get_dotted ?input (inputKey m') = None \<or> get_dotted ?input (inputKey m') = Some JNull"
    using g2 by simp
  show ?thesis
    using absent_values_omitted [of get_dotted ?input
        "\<lparr> pipedriveKey = ''org_name'', inputKey = ''company'' \<rparr>" "[(''name'', JStr ''Jane Doe'')]"
        ?ms "''phone''"] h1 h2 g1 g2
    by blast
qed




section \<open>Validation in the orchestrator\<close>

lemmas scenario_defs = scenario_mappings_def scenario_input_def scenario_env_def
  scenario_remote_def jane_def

lemmas run_defs = syncPdPerson_def syncPdPerson_try_def findPersonByName_def
  createOrUpdatePerson_def search_request_def upsert_request_def BASE_URL_def formatError_def
  personData_def personData_step_def assign_def get_dotted_def numberToString_def digits.simps

lemma find_name_None:
  "(\<forall>m \<in> set mappings. pipedriveKey m \<noteq> ''name'')
     \<longleftrightarrow> List.find (\<lambda>m. pipedriveKey m = ''name'') mappings = None"
  by (auto simp: find_None_iff)

lemma try_no_mapping:
  "List.find (\<lambda>m. pipedriveKey m = ''name'') mappings = None
     \<Longrightarrow> syncPdPerson_try get e r mappings inputData =
           (Inl (Error ''No mapping found for 'name' in mappings.json''), [])"
  by (simp add: syncPdPerson_try_def)

lemma name_check:
  "(\<not> truthy v \<or> typeof v \<noteq> ''string'') \<longleftrightarrow> \<not> (\<exists>s. s \<noteq> [] \<and> v = Some (JStr s))"
  by (cases v rule: truthy.cases) auto

lemma try_invalid_name:
  "List.find (\<lambda>m. pipedriveKey m = ''name'') mappings = Some nm
     \<Longrightarrow> \<not> truthy (get inputData (inputKey nm)) \<or> typeof (get inputData (inputKey nm)) \<noteq> ''string''
     \<Longrightarrow> syncPdPerson_try get e r mappings inputData =
           (Inl (Error (''Invalid or missing value for inputKey '' @ [CHR 0x27] @ inputKey nm
                          @ [CHR 0x27] @ '' in inputData.json'')), [])"
  by (simp add: syncPdPerson_try_def)

lemma try_valid_name:
  "List.find (\<lambda>m. pipedriveKey m = ''name'') mappings = Some nm
     \<Longrightarrow> get inputData (inputKey nm) = Some (JStr s) \<Longrightarrow> s \<noteq> []
     \<Longrightarrow> syncPdPerson_try get e r mappings inputData =
           (case findPersonByName e r s of
              (Inl error, t1) \<Rightarrow> (Inl error, t1)
            | (Inr existingPerson, t1) \<Rightarrow>
                (case createOrUpdatePerson e r (personData get mappings inputData)
                        (map_option ident existingPerson) of
                   (result, t2) \<Rightarrow> (result, t1 @ t2)))"
  by (simp add: syncPdPerson_try_def)

lemma findPersonByName_trace:
  "\<exists>rest. snd (findPersonByName e r name) = Call_findPersonByName name # rest"
  by (simp add: findPersonByName_def split: sum.split)

lemma createOrUpdatePerson_trace:
  "snd (createOrUpdatePerson e r body personId) =
     [Call_createOrUpdatePerson body personId, Http (upsert_request e body personId)]"
  by (simp add: createOrUpdatePerson_def split: sum.split)

lemma snd_syncPdPerson: "snd (syncPdPerson get e r mappings inputData) = snd (syncPdPerson_try get e r mappings inputData)"
  by (simp add: syncPdPerson_def split: prod.split sum.split)

lemma fst_syncPdPerson:
  "fst (syncPdPerson get e r mappings inputData) =
     (case fst (syncPdPerson_try get e r mappings inputData) of
        Inl error \<Rightarrow> Inl (Error (formatError ''Error in syncPdPerson'' error))
      | Inr person \<Rightarrow> Inr person)"
  by (simp add: syncPdPerson_def split: prod.split sum.split)

text \<open>Every error the try block can raise, with its message.\<close>

lemma formatError_prefix: "\<exists>d. d \<noteq> [] \<and> formatError context error = context @ '': '' @ d"
  by (cases error) (auto simp: formatError_def split: option.splits)

lemma findPersonByName_errors:
  "fst (findPersonByName e r name) = Inl error
     \<Longrightarrow> error = Error ''Missing PIPEDRIVE_API_KEY or PIPEDRIVE_COMPANY_DOMAIN in .env file''
       \<or> (\<exists>d. d \<noteq> [] \<and> error = Error (''Failed to search for person: '' @ d))"
  using formatError_prefix [of "''Failed to search for person''"]
  by (auto simp: findPersonByName_def split: sum.splits if_splits)

lemma createOrUpdatePerson_errors:
  "fst (createOrUpdatePerson e r body personId) = Inl error
     \<Longrightarrow> (\<exists>d. d \<noteq> [] \<and> error = Error (''Failed to update person: '' @ d))
       \<or> (\<exists>d. d \<noteq> [] \<and> error = Error (''Failed to create person: '' @ d))"
  using formatError_prefix [of "''Failed to update person''"]
    formatError_prefix [of "''Failed to create person''"]
  by (auto simp: createOrUpdatePerson_def split: sum.splits if_splits)

lemma try_errors:
  assumes "fst (syncPdPerson_try get e r mappings inputData) = Inl error"
  shows "error = Error ''No mapping found for 'name' in mappings.json''
       \<or> (\<exists>k. error = Error (''Invalid or missing value for inputKey '' @ [CHR 0x27] @ k
                               @ [CHR 0x27] @ '' in inputData.json''))
       \<or> error = Error ''Missing PIPEDRIVE_API_KEY or PIPEDRIVE_COMPANY_DOMAIN in .env file''
       \<or> (\<exists>d. d \<noteq> [] \<and> error = Error (''Failed to search for person: '' @ d))
       \<or> (\<exists>d. d \<noteq> [] \<and> error = Error (''Failed to update person: '' @ d))
       \<or> (\<exists>d. d \<noteq> [] \<and> error = Error (''Failed to create person: '' @ d))"
proof (cases "List.find (\<lambda>m. pipedriveKey m = ''name'') mappings")
  case None
  then show ?thesis using assms by (simp add: try_no_mapping)
next
  case (Some nm)
  show ?thesis
  proof (cases "\<not> truthy (get inputData (inputKey nm)) \<or> typeof (get inputData (inputKey nm)) \<noteq> ''string''")
    case True
    with Some assms have "error = Error (''Invalid or missing value for inputKey '' @ [CHR 0x27] @ inputKey nm
                          @ [CHR 0x27] @ '' in inputData.json'')"
      by (simp add: try_invalid_name)
    then show ?thesis by blast
  next
    case False
    then obtain s where s: "s \<noteq> []" "get inputData (inputKey nm) = Some (JStr s)"
      using name_check by blast
    note run = try_valid_name [where get = get and inputData = inputData, OF Some s(2) s(1), of e r]
    obtain res1 t1 where f: "findPersonByName e r s = (res1, t1)" by (cases "findPersonByName e r s")
    show ?thesis
    proof (cases res1)
      case (Inl err)
      with f run assms have "fst (findPersonByName e r s) = Inl error" by simp
      from findPersonByName_errors [OF this] show ?thesis by blast
    next
      case (Inr existing)
      obtain res2 t2 where c: "createOrUpdatePerson e r (personData get mappings inputData)
                        (map_option ident existing) = (res2, t2)"
        by (cases "createOrUpdatePerson e r (personData get mappings inputData) (map_option ident existing)")
      with f run assms Inr have "fst (createOrUpdatePerson e r (personData get mappings inputData)
                        (map_option ident existing)) = Inl error" by simp
      from createOrUpdatePerson_errors [OF this] show ?thesis by blast
    qed
  qed
qed

lemma valid_name_errors:
  assumes nm: "List.find (\<lambda>m. pipedriveKey m = ''name'') mappings = Some nm"
    and s: "get inputData (inputKey nm) = Some (JStr s)" "s \<noteq> []"
    and err: "fst (syncPdPerson_try get e r mappings inputData) = Inl error"
  shows "error = Error ''Missing PIPEDRIVE_API_KEY or PIPEDRIVE_COMPANY_DOMAIN in .env file''
       \<or> (\<exists>d. d \<noteq> [] \<and> error = Error (''Failed to search for person: '' @ d))
       \<or> (\<exists>d. d \<noteq> [] \<and> error = Error (''Failed to update person: '' @ d))
       \<or> (\<exists>d. d \<noteq> [] \<and> error = Error (''Failed to create person: '' @ d))"
proof -
  note run = try_valid_name [where get = get and inputData = inputData, OF nm s, of e r]
  obtain res1 t1 where f: "findPersonByName e r s = (res1, t1)"
    by (cases "findPersonByName e r s")
  show ?thesis
  proof (cases res1)
    case (Inl e1)
    with f run err have "fst (findPersonByName e r s) = Inl error" by simp
    from findPersonByName_errors [OF this] show ?thesis by blast
  next
    case (Inr existing)
    obtain res2 t2 where
      "createOrUpdatePerson e r (personData get mappings inputData) (map_option ident existing)
         = (res2, t2)"
      by (cases "createOrUpdatePerson e r (personData get mappings inputData)
                   (map_option ident existing)")
    with f run err Inr have
      "fst (createOrUpdatePerson e r (personData get mappings inputData)
              (map_option ident existing)) = Inl error"
      by simp
    from createOrUpdatePerson_errors [OF this] show ?thesis by blast
  qed
qed

lemma valid_name_trace:
  assumes nm: "List.find (\<lambda>m. pipedriveKey m = ''name'') mappings = Some nm"
    and s: "get inputData (inputKey nm) = Some (JStr s)" "s \<noteq> []"
  shows "\<exists>rest. snd (syncPdPerson get e r mappings inputData) = Call_findPersonByName s # rest"
proof -
  note run = try_valid_name [where get = get and inputData = inputData, OF nm s, of e r]
  obtain rest where "snd (findPersonByName e r s) = Call_findPersonByName s # rest"
    using findPersonByName_trace by blast
  then show ?thesis
    by (auto simp: snd_syncPdPerson run split: prod.split sum.split)
qed

lemma upsert_after_lookup:
  assumes nm: "List.find (\<lambda>m. pipedriveKey m = ''name'') mappings = Some nm"
    and s: "get inputData (inputKey nm) = Some (JStr s)" "s \<noteq> []"
    and f: "findPersonByName e r s = (Inr existingPerson, t)"
  shows "snd (syncPdPerson get e r mappings inputData) =
           t @ [Call_createOrUpdatePerson (personData get mappings inputData)
                  (map_option ident existingPerson),
                Http (upsert_request e (personData get mappings inputData)
                  (map_option ident existingPerson))]"
proof -
  note run = try_valid_name [where get = get and inputData = inputData, OF nm s, of e r]
  show ?thesis
    using createOrUpdatePerson_trace [of e r "personData get mappings inputData"
        "map_option ident existingPerson"]
    by (auto simp: snd_syncPdPerson run f split: prod.split)
qed

text \<open>
  Claim C2. When no entry of the mapping table has the target field \<^verbatim>\<open>name\<close>, the run
  fails with the error for the missing mapping, wrapped by the orchestrator, and its
  list of effects is empty: neither \<^verbatim>\<open>findPersonByName\<close> nor \<^verbatim>\<open>createOrUpdatePerson\<close> is
  invoked and no HTTP request is made.
\<close>

theorem no_name_mapping_aborts:
  assumes "\<forall>m \<in> set mappings. pipedriveKey m \<noteq> ''name''"
  shows "syncPdPerson get e r mappings inputData =
           (Inl (Error ''Error in syncPdPerson: No mapping found for 'name' in mappings.json''), [])"
proof -
  have "List.find (\<lambda>m. pipedriveKey m = ''name'') mappings = None"
    using assms by (simp add: find_name_None)
  then show ?thesis
    by (simp add: syncPdPerson_def try_no_mapping formatError_def)
qed

text \<open>
  A table that maps \<^verbatim>\<open>email\<close> only.
\<close>

theorem no_name_mapping_aborts_witness:
  "syncPdPerson get_dotted scenario_env (scenario_remote (Inr (Some [])) (Inr (jane 7)))
     [\<lparr> pipedriveKey = ''email'', inputKey = ''contact.email'' \<rparr>] scenario_input =
   (Inl (Error ''Error in syncPdPerson: No mapping found for 'name' in mappings.json''), [])"
  using no_name_mapping_aborts [of "[\<lparr> pipedriveKey = ''email'', inputKey = ''contact.email'' \<rparr>]"
      get_dotted scenario_env "scenario_remote (Inr (Some [])) (Inr (jane 7))" scenario_input]
  by simp

text \<open>
  Claim C10, as amended. \<^verbatim>\<open>mappings.find\<close> takes the first entry for \<^verbatim>\<open>name\<close>, and only
  that entry is validated. When it resolves to the empty string, or to any other falsy
  value, the run fails with the error for an invalid or missing value and its list of
  effects is empty: no lookup, no upsert, no HTTP request.
\<close>

theorem falsy_name_rejected:
  assumes "List.find (\<lambda>m. pipedriveKey m = ''name'') mappings = Some nm"
    and "get inputData (inputKey nm) = Some (JStr '''') \<or> \<not> truthy (get inputData (inputKey nm))"
  shows "syncPdPerson get e r mappings inputData =
           (Inl (Error (''Error in syncPdPerson: Invalid or missing value for inputKey ''
                          @ [CHR 0x27] @ inputKey nm @ [CHR 0x27] @ '' in inputData.json'')), [])"
proof -
  have "\<not> truthy (get inputData (inputKey nm))"
    using assms(2) by auto
  then have "syncPdPerson_try get e r mappings inputData =
           (Inl (Error (''Invalid or missing value for inputKey '' @ [CHR 0x27] @ inputKey nm
                          @ [CHR 0x27] @ '' in inputData.json'')), [])"
    using assms(1) by (simp add: try_invalid_name)
  then show ?thesis
    by (simp add: syncPdPerson_def formatError_def)
qed

text \<open>
  The name is read from \<^verbatim>\<open>contact.name\<close>, which holds the empty string.
\<close>

theorem falsy_name_rejected_witness:
  "get_dotted (JObj [(''contact'', JObj [(''name'', JStr '''')])]) ''contact.name'' = Some (JStr '''')
   \<and> syncPdPerson get_dotted scenario_env (scenario_remote (Inr (Some [])) (Inr (jane 7)))
         [\<lparr> pipedriveKey = ''email'', inputKey = ''contact.email'' \<rparr>,
          \<lparr> pipedriveKey = ''name'', inputKey = ''contact.name'' \<rparr>]
         (JObj [(''contact'', JObj [(''name'', JStr '''')])]) =
       (Inl (Error ''Error in syncPdPerson: Invalid or missing value for inputKey 'contact.name' in inputData.json''), [])"
proof -
  let ?input = "JObj [(''contact'', JObj [(''name'', JStr '''')])]"
  let ?nm = "\<lparr> pipedriveKey = ''name'', inputKey = ''contact.name'' \<rparr>"
  let ?ms = "[\<lparr> pipedriveKey = ''email'', inputKey = ''contact.email'' \<rparr>, ?nm]"
  have g: "get_dotted ?input ''contact.name'' = Some (JStr '''')"
    by (simp add: get_dotted_def)
  have f: "List.find (\<lambda>m. pipedriveKey m = ''name'') ?ms = Some ?nm"
    by simp
  have h: "get_dotted ?input (inputKey ?nm) = Some (JStr '''')
           \<or> \<not> truthy (get_dotted ?input (inputKey ?nm))"
    using g by simp
  show ?thesis
    using falsy_name_rejected [of ?ms ?nm get_dotted ?input scenario_env
        "scenario_remote (Inr (Some [])) (Inr (jane 7))"] f h g
    by simp
qed

text \<open>
  Claim C10 as stated fails: a table with two entries for \<^verbatim>\<open>name\<close>, of which the second
  resolves to the empty string. The first entry passes validation, the search is made
  and, nothing being found, the create request is sent; the payload's name is the empty
  string of the later entry.
\<close>

theorem later_empty_name_entry_passes:
  "get_dotted (JObj [(''fullName'', JStr ''Jane Doe''), (''nick'', JStr [])]) ''nick''
     = Some (JStr [])
   \<and> syncPdPerson get_dotted scenario_env (scenario_remote (Inr (Some [])) (Inr (jane 7)))
         [\<lparr> pipedriveKey = ''name'', inputKey = ''fullName'' \<rparr>,
          \<lparr> pipedriveKey = ''name'', inputKey = ''nick'' \<rparr>]
         (JObj [(''fullName'', JStr ''Jane Doe''), (''nick'', JStr [])]) =
       (Inr (jane 7),
        [Call_findPersonByName ''Jane Doe'',
         Http (search_request scenario_env ''Jane Doe''),
         Call_createOrUpdatePerson [(''name'', JStr [])] None,
         Http \<lparr> http_method = ''post'', url = ''https://acme.pipedrive.com/v1/persons'',
                params = [(''api_token'', Some (JStr ''key''))],
                data = Some [(''name'', JStr [])] \<rparr>])"
  by (simp add: run_defs scenario_defs)

text \<open>
  Claim C5, as amended. For a table whose first \<^verbatim>\<open>name\<close> entry is \<open>nm\<close>, the run fails
  with the error for an invalid or missing identifying value exactly when the resolved
  value is not a string (which covers \<^verbatim>\<open>undefined\<close> and \<^verbatim>\<open>null\<close>) or is the empty string.
  For every non-empty string \<open>s\<close> the run goes on: \<^verbatim>\<open>findPersonByName\<close> is invoked with
  \<open>s\<close>, and if the lookup returns a result (it may fail instead, and the run with it),
  \<^verbatim>\<open>createOrUpdatePerson\<close> is invoked with the payload built from the table and the
  input.
\<close>

theorem identity_value_validation:
  assumes "List.find (\<lambda>m. pipedriveKey m = ''name'') mappings = Some nm"
  shows "(fst (syncPdPerson get e r mappings inputData) =
            Inl (Error (''Error in syncPdPerson: Invalid or missing value for inputKey ''
                          @ [CHR 0x27] @ inputKey nm @ [CHR 0x27] @ '' in inputData.json''))
          \<longleftrightarrow> typeof (get inputData (inputKey nm)) \<noteq> ''string''
                \<or> get inputData (inputKey nm) = Some (JStr ''''))
       \<and> (\<forall>s. get inputData (inputKey nm) = Some (JStr s) \<and> s \<noteq> [] \<longrightarrow>
              (\<exists>rest. snd (syncPdPerson get e r mappings inputData)
                         = Call_findPersonByName s # rest)
            \<and> (\<forall>existingPerson t. findPersonByName e r s = (Inr existingPerson, t) \<longrightarrow>
                  snd (syncPdPerson get e r mappings inputData) =
                    t @ [Call_createOrUpdatePerson (personData get mappings inputData)
                           (map_option ident existingPerson),
                         Http (upsert_request e (personData get mappings inputData)
                           (map_option ident existingPerson))]))"
proof (intro conjI allI impI)
  let ?v = "get inputData (inputKey nm)"
  let ?msg = "''Invalid or missing value for inputKey '' @ [CHR 0x27] @ inputKey nm
                @ [CHR 0x27] @ '' in inputData.json''"
  have rejected: "(typeof ?v \<noteq> ''string'' \<or> ?v = Some (JStr ''''))
                    \<longleftrightarrow> (\<not> truthy ?v \<or> typeof ?v \<noteq> ''string'')"
    by (cases ?v rule: truthy.cases) auto
  show "fst (syncPdPerson get e r mappings inputData) =
            Inl (Error (''Error in syncPdPerson: Invalid or missing value for inputKey ''
                          @ [CHR 0x27] @ inputKey nm @ [CHR 0x27] @ '' in inputData.json''))
          \<longleftrightarrow> typeof ?v \<noteq> ''string'' \<or> ?v = Some (JStr '''')"
  proof (cases "\<not> truthy ?v \<or> typeof ?v \<noteq> ''string''")
    case True
    then have "syncPdPerson_try get e r mappings inputData = (Inl (Error ?msg), [])"
      using assms by (simp add: try_invalid_name)
    then have "fst (syncPdPerson get e r mappings inputData) =
                 Inl (Error (formatError ''Error in syncPdPerson'' (Error ?msg)))"
      by (simp add: fst_syncPdPerson)
    with True rejected show ?thesis by (simp add: formatError_def)
  next
    case False
    then obtain s where s: "s \<noteq> []" "?v = Some (JStr s)"
      using name_check by blast
    have "fst (syncPdPerson get e r mappings inputData) \<noteq>
            Inl (Error (''Error in syncPdPerson: '' @ ?msg))"
    proof (cases "fst (syncPdPerson_try get e r mappings inputData)")
      case (Inl error)
      from valid_name_errors [where get = get and inputData = inputData, OF assms s(2) s(1) Inl]
      show ?thesis
        by (auto simp: fst_syncPdPerson Inl formatError_def)
    next
      case (Inr person)
      then show ?thesis by (simp add: fst_syncPdPerson)
    qed
    with False rejected show ?thesis by simp
  qed
next
  fix s
  assume "get inputData (inputKey nm) = Some (JStr s) \<and> s \<noteq> []"
  then show "\<exists>rest. snd (syncPdPerson get e r mappings inputData) = Call_findPersonByName s # rest"
    using valid_name_trace [where get = get and inputData = inputData, OF assms] by blast
next
  fix s existingPerson t
  assume "get inputData (inputKey nm) = Some (JStr s) \<and> s \<noteq> []"
    and "findPersonByName e r s = (Inr existingPerson, t)"
  then show "snd (syncPdPerson get e r mappings inputData) =
                    t @ [Call_createOrUpdatePerson (personData get mappings inputData)
                           (map_option ident existingPerson),
                         Http (upsert_request e (personData get mappings inputData)
                           (map_option ident existingPerson))]"
    using upsert_after_lookup [where get = get and inputData = inputData, OF assms] by blast
qed

text \<open>
  A number for a name is rejected; the name of the scenario passes.
\<close>

theorem identity_value_validation_witness:
  "List.find (\<lambda>m. pipedriveKey m = ''name'') scenario_mappings
     = Some \<lparr> pipedriveKey = ''name'', inputKey = ''fullName'' \<rparr>
   \<and> get_dotted (JObj [(''fullName'', JNum 7)]) ''fullName'' = Some (JNum 7)
   \<and> fst (syncPdPerson get_dotted scenario_env (scenario_remote (Inr (Some [])) (Inr (jane 7)))
            scenario_mappings (JObj [(''fullName'', JNum 7)])) =
       Inl (Error ''Error in syncPdPerson: Invalid or missing value for inputKey 'fullName' in inputData.json'')
   \<and> get_dotted scenario_input ''fullName'' = Some (JStr ''Jane Doe'')
   \<and> (\<exists>rest. snd (syncPdPerson get_dotted scenario_env (scenario_remote (Inr (Some [])) (Inr (jane 7)))
                     scenario_mappings scenario_input)
               = Call_findPersonByName ''Jane Doe'' # rest)"
proof -
  let ?nm = "\<lparr> pipedriveKey = ''name'', inputKey = ''fullName'' \<rparr>"
  let ?r = "scenario_remote (Inr (Some [])) (Inr (jane 7))"
  have f: "List.find (\<lambda>m. pipedriveKey m = ''name'') scenario_mappings = Some ?nm"
    by (simp add: scenario_mappings_def)
  have g1: "get_dotted (JObj [(''fullName'', JNum 7)]) ''fullName'' = Some (JNum 7)"
    by (simp add: get_dotted_def)
  have g2: "get_dotted scenario_input ''fullName'' = Some (JStr ''Jane Doe'')"
    by (simp add: get_dotted_def scenario_input_def)
  have a: "fst (syncPdPerson get_dotted scenario_env ?r scenario_mappings (JObj [(''fullName'', JNum 7)])) =
       Inl (Error ''Error in syncPdPerson: Invalid or missing value for inputKey 'fullName' in inputData.json'')"
    using identity_value_validation [OF f, of get_dotted scenario_env ?r "JObj [(''fullName'', JNum 7)]"] g1
    by simp
  have b: "\<exists>rest. snd (syncPdPerson get_dotted scenario_env ?r scenario_mappings scenario_input)
               = Call_findPersonByName ''Jane Doe'' # rest"
    using identity_value_validation [OF f, of get_dotted scenario_env ?r scenario_input] g2
    by simp
  from f g1 a g2 b show ?thesis by blast
qed

text \<open>
  Claim C5 as stated fails: the empty string is a string, and the run is rejected before
  any effect.
\<close>

theorem empty_string_name_fails:
  "typeof (get_dotted (JObj [(''fullName'', JStr '''')]) ''fullName'') = ''string''
   \<and> syncPdPerson get_dotted scenario_env (scenario_remote (Inr (Some [])) (Inr (jane 7)))
         scenario_mappings (JObj [(''fullName'', JStr '''')]) =
       (Inl (Error ''Error in syncPdPerson: Invalid or missing value for inputKey 'fullName' in inputData.json''), [])"
  by (simp add: run_defs scenario_defs)

section \<open>Failures surfaced to the caller\<close>

text \<open>
  Claim C6, as amended. Every failure of \<^verbatim>\<open>syncPdPerson\<close> is an \<^verbatim>\<open>Error\<close> whose message
  is the fixed context \<^verbatim>\<open>Error in syncPdPerson\<close>, a colon and a space, and the unchanged,
  non-empty message of the error raised inside the \<^verbatim>\<open>try\<close> block. The context is the same
  for every step; only the inner messages of the remote calls name an operation.
\<close>

theorem failures_wrapped:
  assumes "fst (syncPdPerson get e r mappings inputData) = Inl failure"
  shows "\<exists>inner. inner \<noteq> []
           \<and> fst (syncPdPerson_try get e r mappings inputData) = Inl (Error inner)
           \<and> failure = Error (''Error in syncPdPerson'' @ '': '' @ inner)
           \<and> (inner = ''No mapping found for 'name' in mappings.json''
              \<or> (\<exists>k. inner = ''Invalid or missing value for inputKey '' @ [CHR 0x27] @ k
                                 @ [CHR 0x27] @ '' in inputData.json'')
              \<or> inner = ''Missing PIPEDRIVE_API_KEY or PIPEDRIVE_COMPANY_DOMAIN in .env file''
              \<or> (\<exists>d. d \<noteq> [] \<and> inner = ''Failed to search for person'' @ '': '' @ d)
              \<or> (\<exists>d. d \<noteq> [] \<and> inner = ''Failed to update person'' @ '': '' @ d)
              \<or> (\<exists>d. d \<noteq> [] \<and> inner = ''Failed to create person'' @ '': '' @ d))"
proof (cases "fst (syncPdPerson_try get e r mappings inputData)")
  case (Inr person)
  with assms show ?thesis by (simp add: fst_syncPdPerson)
next
  case (Inl error)
  let ?forms = "\<lambda>inner. inner = ''No mapping found for 'name' in mappings.json''
              \<or> (\<exists>k. inner = ''Invalid or missing value for inputKey '' @ [CHR 0x27] @ k
                                 @ [CHR 0x27] @ '' in inputData.json'')
              \<or> inner = ''Missing PIPEDRIVE_API_KEY or PIPEDRIVE_COMPANY_DOMAIN in .env file''
              \<or> (\<exists>d. d \<noteq> [] \<and> inner = ''Failed to search for person'' @ '': '' @ d)
              \<or> (\<exists>d. d \<noteq> [] \<and> inner = ''Failed to update person'' @ '': '' @ d)
              \<or> (\<exists>d. d \<noteq> [] \<and> inner = ''Failed to create person'' @ '': '' @ d)"
  have "\<exists>inner. error = Error inner \<and> inner \<noteq> [] \<and> ?forms inner"
    using try_errors [OF Inl]
  proof (elim disjE exE conjE)
    assume "error = Error ''No mapping found for 'name' in mappings.json''"
    then show ?thesis by simp
  next
    fix k
    assume "error = Error (''Invalid or missing value for inputKey '' @ [CHR 0x27] @ k
                               @ [CHR 0x27] @ '' in inputData.json'')"
    then show ?thesis by simp
  next
    assume "error = Error ''Missing PIPEDRIVE_API_KEY or PIPEDRIVE_COMPANY_DOMAIN in .env file''"
    then show ?thesis by simp
  next
    fix d :: string
    assume "d \<noteq> []" "error = Error (''Failed to search for person: '' @ d)"
    then show ?thesis by simp
  next
    fix d :: string
    assume "d \<noteq> []" "error = Error (''Failed to update person: '' @ d)"
    then show ?thesis by simp
  next
    fix d :: string
    assume "d \<noteq> []" "error = Error (''Failed to create person: '' @ d)"
    then show ?thesis by simp
  qed
  then obtain inner where inner: "error = Error inner" "inner \<noteq> []" and forms: "?forms inner"
    by (elim exE conjE)
  have wrapped: "failure = Error (''Error in syncPdPerson'' @ '': '' @ inner)"
    using assms Inl inner by (simp add: fst_syncPdPerson formatError_def)
  have inner_raised: "fst (syncPdPerson_try get e r mappings inputData) = Inl (Error inner)"
    using Inl inner by simp
  show ?thesis
    by (rule exI [of _ inner]) (intro conjI inner(2) inner_raised wrapped forms)
qed

text \<open>
  A search that the remote system rejects.
\<close>

theorem failures_wrapped_witness:
  "fst (syncPdPerson get_dotted scenario_env
          (scenario_remote (Inl (AxiosError (Some ''Unauthorized'') ''Request failed with status code 401''))
             (Inr (jane 7)))
          scenario_mappings scenario_input)
     = Inl (Error ''Error in syncPdPerson: Failed to search for person: Unauthorized'')
   \<and> (\<exists>inner. inner \<noteq> []
        \<and> fst (syncPdPerson_try get_dotted scenario_env
            (scenario_remote (Inl (AxiosError (Some ''Unauthorized'') ''Request failed with status code 401''))
               (Inr (jane 7)))
            scenario_mappings scenario_input) = Inl (Error inner)
        \<and> Error ''Error in syncPdPerson: Failed to search for person: Unauthorized''
             = Error (''Error in syncPdPerson'' @ '': '' @ inner))"
proof -
  let ?r = "scenario_remote (Inl (AxiosError (Some ''Unauthorized'') ''Request failed with status code 401''))
             (Inr (jane 7))"
  have run: "fst (syncPdPerson get_dotted scenario_env ?r scenario_mappings scenario_input)
     = Inl (Error ''Error in syncPdPerson: Failed to search for person: Unauthorized'')"
    by (simp add: run_defs scenario_defs)
  from failures_wrapped [OF run] obtain inner where
    "inner \<noteq> []"
    "fst (syncPdPerson_try get_dotted scenario_env ?r scenario_mappings scenario_input)
       = Inl (Error inner)"
    "Error ''Error in syncPdPerson: Failed to search for person: Unauthorized''
       = Error (''Error in syncPdPerson'' @ '': '' @ inner)"
    by (elim exE conjE)
  then show ?thesis
    using run by (intro conjI exI [of _ inner])
qed

text \<open>
  Claim C6 as stated fails: a run that stops at the mapping check, one that stops at the
  check of the identifying value and one that stops at the lookup all carry the same
  context, which names none of the three steps.
\<close>

theorem context_prefix_is_fixed:
  "fst (syncPdPerson get_dotted scenario_env (scenario_remote (Inr (Some [])) (Inr (jane 7)))
          [] scenario_input)
     = Inl (Error (''Error in syncPdPerson'' @ '': '' @ ''No mapping found for 'name' in mappings.json''))
   \<and> fst (syncPdPerson get_dotted scenario_env (scenario_remote (Inr (Some [])) (Inr (jane 7)))
          scenario_mappings (JObj [(''fullName'', JNull)]))
     = Inl (Error (''Error in syncPdPerson'' @ '': ''
                     @ ''Invalid or missing value for inputKey 'fullName' in inputData.json''))
   \<and> fst (syncPdPerson get_dotted scenario_env
          (scenario_remote (Inl (Error ''socket hang up'')) (Inr (jane 7)))
          scenario_mappings scenario_input)
     = Inl (Error (''Error in syncPdPerson'' @ '': '' @ ''Failed to search for person: socket hang up''))"
  by (simp add: run_defs scenario_defs)

section \<open>The remote lookup\<close>

text \<open>
  Claim C7. With credentials present and a search that resolves with a list of items,
  \<^verbatim>\<open>findPersonByName\<close> returns \<^verbatim>\<open>null\<close> for the empty list and the person of the first item
  otherwise.
\<close>

theorem lookup_returns_first_item:
  assumes "truthy_string (API_KEY e)" and "truthy_string (COMPANY_DOMAIN e)"
    and "axios_get r (search_request e name) = Inr (Some items)"
  shows "(items = [] \<longrightarrow> fst (findPersonByName e r name) = Inr None)
       \<and> (\<forall>first rest. items = first # rest \<longrightarrow>
             fst (findPersonByName e r name) = Inr (Some (item first)))"
  using assms by (simp add: findPersonByName_def)

text \<open>
  An empty answer, and an answer of two items.
\<close>

theorem lookup_returns_first_item_witness:
  "fst (findPersonByName scenario_env (scenario_remote (Inr (Some [])) (Inr (jane 7))) ''Jane Doe'')
     = Inr None
   \<and> fst (findPersonByName scenario_env
            (scenario_remote (Inr (Some [\<lparr> item = jane 42 \<rparr>, \<lparr> item = jane 43 \<rparr>])) (Inr (jane 7)))
            ''Jane Doe'')
     = Inr (Some (jane 42))"
proof -
  have k: "truthy_string (API_KEY scenario_env)" "truthy_string (COMPANY_DOMAIN scenario_env)"
    by (simp_all add: scenario_env_def)
  have a: "axios_get (scenario_remote (Inr (Some [])) (Inr (jane 7)))
             (search_request scenario_env ''Jane Doe'') = Inr (Some [])"
    by (simp add: scenario_remote_def)
  have b: "axios_get (scenario_remote (Inr (Some [\<lparr> item = jane 42 \<rparr>, \<lparr> item = jane 43 \<rparr>])) (Inr (jane 7)))
             (search_request scenario_env ''Jane Doe'')
           = Inr (Some [\<lparr> item = jane 42 \<rparr>, \<lparr> item = jane 43 \<rparr>])"
    by (simp add: scenario_remote_def)
  from lookup_returns_first_item [OF k a] lookup_returns_first_item [OF k b]
  show ?thesis by simp
qed

section \<open>Create or update\<close>

lemma upsert_request_update:
  "n \<noteq> 0 \<Longrightarrow>
     upsert_request e body (Some n) =
       \<lparr> http_method = ''put'', url = BASE_URL e @ ''/persons/'' @ numberToString n,
         params = [(''api_token'', map_option JStr (API_KEY e))], data = Some body \<rparr>"
  by (simp add: upsert_request_def)

lemma upsert_request_create:
  "upsert_request e body None =
     \<lparr> http_method = ''post'', url = BASE_URL e @ ''/persons'',
       params = [(''api_token'', map_option JStr (API_KEY e))], data = Some body \<rparr>"
  by (simp add: upsert_request_def)

lemma upsert_request_zero: "upsert_request e body (Some 0) = upsert_request e body None"
  by (simp add: upsert_request_def)

lemma upsert_failure_message:
  "axios_request r (upsert_request e body personId) = Inl error \<Longrightarrow>
     fst (createOrUpdatePerson e r body personId) =
       Inl (Error (formatError
              (if http_method (upsert_request e body personId) = ''put''
               then ''Failed to update person'' else ''Failed to create person'') error))"
  by (simp add: createOrUpdatePerson_def upsert_request_def)

lemma findPersonByName_found:
  "truthy_string (API_KEY e) \<Longrightarrow> truthy_string (COMPANY_DOMAIN e)
     \<Longrightarrow> axios_get r (search_request e name) = Inr response
     \<Longrightarrow> findPersonByName e r name =
           (Inr (case response of
                   None \<Rightarrow> None
                 | Some items \<Rightarrow> (case items of [] \<Rightarrow> None | first # rest \<Rightarrow> Some (item first))),
            [Call_findPersonByName name, Http (search_request e name)])"
  by (simp add: findPersonByName_def)

lemma sync_update_path:
  assumes nm: "List.find (\<lambda>m. pipedriveKey m = ''name'') mappings = Some nm"
    and s: "get inputData (inputKey nm) = Some (JStr s)" "s \<noteq> []"
    and env: "truthy_string (API_KEY e)" "truthy_string (COMPANY_DOMAIN e)"
    and found: "axios_get r (search_request e s) = Inr (Some (first # rest))"
    and nonzero: "ident (item first) \<noteq> 0"
  shows "snd (syncPdPerson get e r mappings inputData) =
           [Call_findPersonByName s, Http (search_request e s),
            Call_createOrUpdatePerson (personData get mappings inputData) (Some (ident (item first))),
            Http \<lparr> http_method = ''put'',
                   url = BASE_URL e @ ''/persons/'' @ numberToString (ident (item first)),
                   params = [(''api_token'', map_option JStr (API_KEY e))],
                   data = Some (personData get mappings inputData) \<rparr>]"
proof -
  have "findPersonByName e r s =
          (Inr (Some (item first)), [Call_findPersonByName s, Http (search_request e s)])"
    using findPersonByName_found [OF env found] by simp
  from upsert_after_lookup [where get = get and inputData = inputData, OF nm s this]
  show ?thesis
    using nonzero by (simp add: upsert_request_update)
qed

lemma sync_create_path:
  assumes nm: "List.find (\<lambda>m. pipedriveKey m = ''name'') mappings = Some nm"
    and s: "get inputData (inputKey nm) = Some (JStr s)" "s \<noteq> []"
    and env: "truthy_string (API_KEY e)" "truthy_string (COMPANY_DOMAIN e)"
    and none: "axios_get r (search_request e s) = Inr (Some [])"
  shows "snd (syncPdPerson get e r mappings inputData) =
           [Call_findPersonByName s, Http (search_request e s),
            Call_createOrUpdatePerson (personData get mappings inputData) None,
            Http \<lparr> http_method = ''post'', url = BASE_URL e @ ''/persons'',
                   params = [(''api_token'', map_option JStr (API_KEY e))],
                   data = Some (personData get mappings inputData) \<rparr>]"
proof -
  have "findPersonByName e r s = (Inr None, [Call_findPersonByName s, Http (search_request e s)])"
    using findPersonByName_found [OF env none] by simp
  from upsert_after_lookup [where get = get and inputData = inputData, OF nm s this]
  show ?thesis
    by (simp add: upsert_request_create)
qed

text \<open>
  Claim C1 at the identifier 0. The lookup finds a person whose identifier is 0;
  \<^verbatim>\<open>createOrUpdatePerson\<close> is invoked with that identifier, and the request it makes is a
  POST to \<^verbatim>\<open>/persons\<close>, the request of a create (see \<open>upsert_request_zero\<close>).
\<close>

theorem identifier_zero_issues_create:
  "syncPdPerson get_dotted scenario_env
     (scenario_remote (Inr (Some [\<lparr> item = jane 0 \<rparr>])) (Inr (jane 1)))
     scenario_mappings scenario_input =
   (Inr (jane 1),
    [Call_findPersonByName ''Jane Doe'',
     Http (search_request scenario_env ''Jane Doe''),
     Call_createOrUpdatePerson
       [(''name'', JStr ''Jane Doe''),
        (''email'', JArr [JObj [(''value'', JStr ''jane@x.com''), (''primary'', JBool True),
                                (''label'', JStr ''work'')]])]
       (Some 0),
     Http \<lparr> http_method = ''post'', url = ''https://acme.pipedrive.com/v1/persons'',
            params = [(''api_token'', Some (JStr ''key''))],
            data = Some [(''name'', JStr ''Jane Doe''),
                         (''email'', JArr [JObj [(''value'', JStr ''jane@x.com''),
                                                 (''primary'', JBool True),
                                                 (''label'', JStr ''work'')]])] \<rparr>])"
  by (simp add: run_defs scenario_defs)

text \<open>
  Claim C8 at the identifier 0. \<^verbatim>\<open>createOrUpdatePerson\<close> is invoked with the identifier 0
  and the remote system rejects the request: the message names \<^verbatim>\<open>create\<close>.
\<close>

theorem identifier_zero_failure_says_create:
  "createOrUpdatePerson scenario_env
     (scenario_remote (Inr (Some [\<lparr> item = jane 0 \<rparr>]))
        (Inl (AxiosError (Some ''Name is required'') ''Request failed with status code 400'')))
     [(''email'', JStr ''jane@x.com'')] (Some 0) =
   (Inl (Error ''Failed to create person: Name is required''),
    [Call_createOrUpdatePerson [(''email'', JStr ''jane@x.com'')] (Some 0),
     Http \<lparr> http_method = ''post'', url = ''https://acme.pipedrive.com/v1/persons'',
            params = [(''api_token'', Some (JStr ''key''))],
            data = Some [(''email'', JStr ''jane@x.com'')] \<rparr>])"
  by (simp add: run_defs scenario_defs)

end
